theory Spec2Isabelle
  imports Complex_Main
begin

section \<open>Data model\<close>

text \<open>
  The order and payment controllers of the shopping backend, embedded as functions on an
  explicit database state. A JavaScript number is the rational that its decimal text
  denotes. The sums and products of \<open>createOrder\<close> are IEEE double operations, which the
  environment supplies and of which nothing is assumed; the DECIMAL(10, 2) columns keep two
  decimals. A nullable column or an optional request field is an \<open>option\<close>.
\<close>

datatype order_status = Pending | Processing | Shipped | Delivered | Cancelled

datatype payment_status = PaymentPending | Paid | Failed | Refunded

datatype role = RoleUser | RoleAdmin | RoleSuperAdmin

record user =
  uid :: int
  role :: role

record address =
  street :: string
  city :: string
  state :: string
  zipCode :: string
  country :: string

record item =
  productId :: int
  quantity :: int
  price :: rat

text \<open>The columns of \<open>sequelize.define('Order', ...)\<close> in models/Order.js.\<close>

record order =
  oid :: int
  orderNumber :: "string option"
  userId :: int
  items :: "item list"
  subtotal :: rat
  tax :: rat
  shipping :: rat
  discount :: rat
  totalAmount :: rat
  status :: order_status
  paymentStatus :: payment_status
  paymentMethod :: "string option"
  paymentId :: "string option"
  shippingAddress :: "address option"
  billingAddress :: "address option"
  notes' :: "string option"
  estimatedDelivery :: "nat option"
  trackingNumber :: "string option"
  cancelledAt :: "nat option"
  cancelledBy :: "int option"
  cancelReason :: "string option"

text \<open>
  Modelled from the spec: the Product model file is not among the sources. The controllers
  touch a product only through its primary key and its integer \<open>stock\<close> column.
\<close>

record product =
  pid :: int
  stock :: int

record db =
  orders :: "order list"
  products :: "product list"

section \<open>Environment\<close>

text \<open>
  Everything the code reads from outside: the clock, the random source, the payment
  provider, double arithmetic, and whether a call to the store or to the provider throws.
  Each call to the store has a call site here, so that every \<open>catch\<close> of the source, and
  every throw that no \<open>catch\<close> handles, is a branch of the model.
\<close>

datatype callsite =
    TxBegin
  | OrderCreate
  | ProductDecrement nat
  | TxCommit
  | TxRollback
  | OrderFindByPk
  | OrderFindOne
  | OrderUpdate

datatype error = ValidationError | UniqueConstraintError | DatabaseError

text \<open>
  A payment intent of the provider. Its metadata values are the decimal texts written by
  \<open>createPaymentIntent\<close>; they are kept as the numbers they denote, \<open>None\<close> when absent.
\<close>

record intent =
  pi_id :: string
  pi_status :: string
  pi_amount :: int
  pi_client_secret :: string
  pi_metadata_orderId :: "int option"
  pi_metadata_userId :: "int option"

record refund =
  re_id :: string
  re_amount :: int
  re_status :: string

text \<open>
  A call of the provider that throws is \<open>None\<close>. \<open>js_add\<close> and \<open>js_mul\<close> are \<open>+\<close> and \<open>*\<close>
  on doubles.
\<close>

record env =
  now :: nat
  random36 :: string
  fails :: "callsite \<Rightarrow> bool"
  js_add :: "rat \<Rightarrow> rat \<Rightarrow> rat"
  js_mul :: "rat \<Rightarrow> rat \<Rightarrow> rat"
  intents_create :: "int \<Rightarrow> int \<Rightarrow> int \<Rightarrow> intent option"
  intents_retrieve :: "string \<Rightarrow> intent option"
  refunds_create :: "string \<Rightarrow> int \<Rightarrow> refund option"

section \<open>Responses\<close>

datatype body =
    Failure string
  | OrderData "order option"
  | PaymentConfirmed string order
  | IntentCreated string int
  | Received
  | WebhookFailed string
  | Text string
  | RefundProcessed string string rat string

datatype response = Response (code: nat) (payload: body)

section \<open>The Order model\<close>

text \<open>\<open>Date.now()\<close> printed in decimal.\<close>

fun digits10 :: "nat \<Rightarrow> string" where
  "digits10 n =
     (if n < 10 then [''0123456789'' ! n]
      else digits10 (n div 10) @ [''0123456789'' ! (n mod 10)])"

declare digits10.simps [simp del]

definition toUpperCase_char :: "char \<Rightarrow> char" where
  "toUpperCase_char c =
     (case map_of (zip ''abcdefghijklmnopqrstuvwxyz'' ''ABCDEFGHIJKLMNOPQRSTUVWXYZ'') c of
        Some u \<Rightarrow> u
      | None \<Rightarrow> c)"

definition toUpperCase :: "string \<Rightarrow> string" where
  "toUpperCase s = map toUpperCase_char s"

text \<open>\<open>s.substr(start, len)\<close> for non-negative arguments.\<close>

definition substr :: "string \<Rightarrow> nat \<Rightarrow> nat \<Rightarrow> string" where
  "substr s start len = take len (drop start s)"

text \<open>
  \<open>'ORD-' + Date.now() + '-' + Math.random().toString(36).substr(2, 9).toUpperCase()\<close>;
  \<open>random36\<close> is the text \<open>Math.random().toString(36)\<close>.
\<close>

definition generateOrderNumber :: "env \<Rightarrow> string" where
  "generateOrderNumber e =
     ''ORD-'' @ digits10 (now e) @ ''-'' @ toUpperCase (substr (random36 e) 2 9)"

text \<open>The hook: a missing (null or empty) order number is generated.\<close>

definition beforeCreate :: "env \<Rightarrow> order \<Rightarrow> order" where
  "beforeCreate e ord =
     (if orderNumber ord = None \<or> orderNumber ord = Some []
      then ord\<lparr>orderNumber := Some (generateOrderNumber e)\<rparr>
      else ord)"

text \<open>The column checks of the model: \<open>allowNull: false\<close>, \<open>isValidItems\<close>, \<open>min: 0\<close>.\<close>

definition isValidItems :: "item list \<Rightarrow> bool" where
  "isValidItems value \<longleftrightarrow> value \<noteq> []"

definition validate :: "order \<Rightarrow> bool" where
  "validate ord \<longleftrightarrow>
     orderNumber ord \<noteq> None \<and>
     isValidItems (items ord) \<and>
     0 \<le> subtotal ord \<and>
     0 \<le> tax ord \<and>
     0 \<le> shipping ord \<and>
     0 \<le> discount ord \<and>
     0 \<le> totalAmount ord \<and>
     shippingAddress ord \<noteq> None"

text \<open>\<open>autoIncrement\<close>: one more than the largest key in the table.\<close>

definition next_id :: "db \<Rightarrow> int" where
  "next_id d = foldr max (map oid (orders d)) 0 + 1"

text \<open>
  What a DECIMAL(10, 2) column keeps of a number: two decimals, a half rounded away from
  zero; a number with more than eight digits before the point is refused.
\<close>

definition decimal_10_2 :: "rat \<Rightarrow> rat option" where
  "decimal_10_2 x =
     (let kept = (if 0 \<le> x then of_int \<lfloor>x * 100 + 1 / 2\<rfloor> / 100
                  else - (of_int \<lfloor>- x * 100 + 1 / 2\<rfloor> / 100))
      in if \<bar>kept\<bar> < 100000000 then Some kept else None)"

definition store_decimals :: "order \<Rightarrow> order option" where
  "store_decimals ord =
     (case (decimal_10_2 (subtotal ord), decimal_10_2 (tax ord), decimal_10_2 (shipping ord),
            decimal_10_2 (discount ord), decimal_10_2 (totalAmount ord)) of
        (Some sub, Some tx, Some sh, Some dis, Some tot) \<Rightarrow>
          Some (ord\<lparr>subtotal := sub, tax := tx, shipping := sh, discount := dis,
                    totalAmount := tot\<rparr>)
      | _ \<Rightarrow> None)"

text \<open>
  \<open>Order.create(values, { transaction })\<close>. Sequelize validates the values first, and
  \<open>allowNull: false\<close> is one of the checks; the \<open>beforeCreate\<close> hook runs only on values that
  have passed. The row is then inserted: \<open>unique: true\<close> on \<open>orderNumber\<close> is the store's
  unique index, and the decimal columns keep what \<open>decimal_10_2\<close> gives.
\<close>

definition Order_create :: "env \<Rightarrow> order \<Rightarrow> db \<Rightarrow> error + (order \<times> db)" where
  "Order_create e vals tx =
     (if \<not> validate vals then Inl ValidationError
      else
        let ord = beforeCreate e vals in
        if fails e OrderCreate then Inl DatabaseError
        else if orderNumber ord \<in> set (map orderNumber (orders tx)) then Inl UniqueConstraintError
        else
          (case store_decimals ord of
             None \<Rightarrow> Inl DatabaseError
           | Some kept \<Rightarrow>
               let row = kept\<lparr>oid := next_id tx\<rparr>
               in Inr (row, tx\<lparr>orders := orders tx @ [row]\<rparr>)))"

definition Order_findByPk :: "env \<Rightarrow> db \<Rightarrow> int \<Rightarrow> error + order option" where
  "Order_findByPk e d k =
     (if fails e OrderFindByPk then Inl DatabaseError
      else Inr (find (\<lambda>x. oid x = k) (orders d)))"

text \<open>\<open>Order.findOne({ where: { id, userId } })\<close>.\<close>

definition Order_findOne :: "env \<Rightarrow> db \<Rightarrow> int \<Rightarrow> int \<Rightarrow> error + order option" where
  "Order_findOne e d k u =
     (if fails e OrderFindOne then Inl DatabaseError
      else Inr (find (\<lambda>x. oid x = k \<and> userId x = u) (orders d)))"

text \<open>\<open>UPDATE orders SET ... WHERE id = key\<close>.\<close>

definition rewrite_row :: "int \<Rightarrow> (order \<Rightarrow> order) \<Rightarrow> db \<Rightarrow> db" where
  "rewrite_row key changes d =
     d\<lparr>orders := map (\<lambda>x. if oid x = key then changes x else x) (orders d)\<rparr>"

text \<open>\<open>order.update(changes)\<close>: the row with the instance's key is rewritten.\<close>

definition Order_update :: "env \<Rightarrow> db \<Rightarrow> order \<Rightarrow> (order \<Rightarrow> order) \<Rightarrow> error + (order \<times> db)" where
  "Order_update e d ord changes =
     (if fails e OrderUpdate then Inl DatabaseError
      else Inr (changes ord, rewrite_row (oid ord) changes d))"

text \<open>
  \<open>Product.decrement('stock', { by, where: { id }, transaction })\<close>: an UPDATE of every
  row with that key, none when the key is unknown. There is no check on the resulting stock.
\<close>

definition Product_decrement :: "env \<Rightarrow> nat \<Rightarrow> int \<Rightarrow> int \<Rightarrow> db \<Rightarrow> error + db" where
  "Product_decrement e k by' key tx =
     (if fails e (ProductDecrement k) then Inl DatabaseError
      else Inr (tx\<lparr>products :=
                  map (\<lambda>p. if pid p = key then p\<lparr>stock := stock p - by'\<rparr> else p) (products tx)\<rparr>))"

section \<open>Order controller\<close>

text \<open>\<open>req.body.items\<close>: falsy, a value that is not an array, or an array of line items.\<close>

datatype items_field = ItemsMissing | ItemsNotArray | ItemsArray "item list"

record create_body =
  c_items :: items_field
  c_shippingAddress :: "address option"
  c_billingAddress :: "address option"
  c_notes :: "string option"

text \<open>\<open>let subtotal = 0; for (const item of items) subtotal += item.price * item.quantity\<close>.\<close>

definition calc_subtotal :: "env \<Rightarrow> item list \<Rightarrow> rat" where
  "calc_subtotal e its =
     foldl (\<lambda>s i. js_add e s (js_mul e (price i) (of_int (quantity i)))) 0 its"

text \<open>The object handed to \<open>Order.create\<close>; the other columns take their defaults.\<close>

definition order_values ::
  "int \<Rightarrow> item list \<Rightarrow> rat \<Rightarrow> rat \<Rightarrow> rat \<Rightarrow> rat \<Rightarrow> address \<Rightarrow> address option \<Rightarrow> string option \<Rightarrow> order" where
  "order_values u its sub tx sh tot ship bill nts =
     \<lparr>oid = 0, orderNumber = None, userId = u, items = its,
      subtotal = sub, tax = tx, shipping = sh, discount = 0, totalAmount = tot,
      status = Pending, paymentStatus = PaymentPending,
      paymentMethod = None, paymentId = None,
      shippingAddress = Some ship,
      billingAddress = (case bill of Some b \<Rightarrow> Some b | None \<Rightarrow> Some ship),
      notes' = nts, estimatedDelivery = None, trackingNumber = None,
      cancelledAt = None, cancelledBy = None, cancelReason = None\<rparr>"

text \<open>The loop over the line items: the k-th call decrements the stock of the k-th item.\<close>

fun decrement_loop :: "env \<Rightarrow> nat \<Rightarrow> item list \<Rightarrow> db \<Rightarrow> error + db" where
  "decrement_loop e k [] tx = Inr tx"
| "decrement_loop e k (i # rest) tx =
     (case Product_decrement e k (quantity i) (productId i) tx of
        Inl err \<Rightarrow> Inl err
      | Inr tx' \<Rightarrow> decrement_loop e (Suc k) rest tx')"

definition commit :: "env \<Rightarrow> db \<Rightarrow> error + db" where
  "commit e tx = (if fails e TxCommit then Inl DatabaseError else Inr tx)"

text \<open>
  The statements between the validation and \<open>transaction.commit()\<close>, on the transaction's
  view \<open>tx\<close> of the store; the first throw ends the sequence.
\<close>

definition create_transaction :: "env \<Rightarrow> db \<Rightarrow> order \<Rightarrow> item list \<Rightarrow> error + (order \<times> db)" where
  "create_transaction e d vals its =
     (case Order_create e vals d of
        Inl err \<Rightarrow> Inl err
      | Inr (row, tx1) \<Rightarrow>
          (case decrement_loop e 0 its tx1 of
             Inl err \<Rightarrow> Inl err
           | Inr tx2 \<Rightarrow>
               (case commit e tx2 of
                  Inl err \<Rightarrow> Inl err
                | Inr tx3 \<Rightarrow> Inr (row, tx3))))"

text \<open>
  \<open>createOrder\<close>. The transaction is opened before the \<open>try\<close>: when opening it throws,
  nothing handles the throw and no response is sent (\<open>None\<close>). A 400 returns with the
  transaction still open and nothing written. A throw before the commit has ended reaches
  the \<open>catch\<close>, which rolls back: the store is the one the request found, and 500 is sent
  unless the rollback throws too. A throw of the read after the commit reaches the same
  \<open>catch\<close>, whose rollback of a finished transaction is itself rejected: the committed
  store stays and no response is sent.
\<close>

definition createOrder :: "env \<Rightarrow> db \<Rightarrow> user \<Rightarrow> create_body \<Rightarrow> response option \<times> db" where
  "createOrder e d u b =
     (if fails e TxBegin then (None, d)
      else
        (case c_items b of
           ItemsMissing \<Rightarrow>
             (Some (Response 400 (Failure ''Items are required and must be a non-empty array'')), d)
         | ItemsNotArray \<Rightarrow>
             (Some (Response 400 (Failure ''Items are required and must be a non-empty array'')), d)
         | ItemsArray its \<Rightarrow>
             if its = [] then
               (Some (Response 400 (Failure ''Items are required and must be a non-empty array'')), d)
             else
               (case c_shippingAddress b of
                  None \<Rightarrow> (Some (Response 400 (Failure ''Shipping address is required'')), d)
                | Some ship \<Rightarrow>
                    let subtotal' = calc_subtotal e its;
                        tax' = js_mul e subtotal' (1 / 10);
                        shipping' = 10;
                        totalAmount' = js_add e (js_add e subtotal' tax') shipping';
                        vals = order_values (uid u) its subtotal' tax' shipping' totalAmount'
                                 ship (c_billingAddress b) (c_notes b)
                    in (case create_transaction e d vals its of
                          Inl err \<Rightarrow>
                            if fails e TxRollback then (None, d)
                            else (Some (Response 500 (Failure ''Internal server error'')), d)
                        | Inr (row, tx) \<Rightarrow>
                            (case Order_findByPk e tx (oid row) of
                               Inl err \<Rightarrow> (None, tx)
                             | Inr createdOrder \<Rightarrow>
                                 (Some (Response 201 (OrderData createdOrder)), tx))))))"

text \<open>\<open>getOrderById\<close> reads only.\<close>

definition getOrderById :: "env \<Rightarrow> db \<Rightarrow> user \<Rightarrow> int \<Rightarrow> response" where
  "getOrderById e d u k =
     (case Order_findOne e d k (uid u) of
        Inl err \<Rightarrow> Response 500 (Failure ''Internal server error'')
      | Inr None \<Rightarrow> Response 404 (Failure ''Order not found'')
      | Inr (Some ord) \<Rightarrow> Response 200 (OrderData (Some ord)))"

record update_body =
  up_status :: "string option"
  up_trackingNumber :: "string option"
  up_notes :: "string option"

text \<open>The ENUM of the \<open>status\<close> column; any other text is refused by the model.\<close>

definition parse_status :: "string \<Rightarrow> order_status option" where
  "parse_status s =
     (if s = ''pending'' then Some Pending
      else if s = ''processing'' then Some Processing
      else if s = ''shipped'' then Some Shipped
      else if s = ''delivered'' then Some Delivered
      else if s = ''cancelled'' then Some Cancelled
      else None)"

text \<open>A text field of a request is falsy when absent or empty, a number when absent or 0.\<close>

definition truthy_str :: "string option \<Rightarrow> bool" where
  "truthy_str s \<longleftrightarrow> s \<noteq> None \<and> s \<noteq> Some []"

definition truthy_int :: "int option \<Rightarrow> bool" where
  "truthy_int n \<longleftrightarrow> n \<noteq> None \<and> n \<noteq> Some 0"

definition truthy_rat :: "rat option \<Rightarrow> bool" where
  "truthy_rat n \<longleftrightarrow> n \<noteq> None \<and> n \<noteq> Some 0"

text \<open>\<open>updateData\<close>: only the truthy fields of the request are set.\<close>

definition updateData :: "update_body \<Rightarrow> order_status option \<Rightarrow> order \<Rightarrow> order" where
  "updateData b st ord =
     (let o1 = (case st of Some v \<Rightarrow> ord\<lparr>status := v\<rparr> | None \<Rightarrow> ord);
          o2 = (if truthy_str (up_trackingNumber b)
                then o1\<lparr>trackingNumber := up_trackingNumber b\<rparr> else o1)
      in if truthy_str (up_notes b) then o2\<lparr>notes' := up_notes b\<rparr> else o2)"

definition updateOrder :: "env \<Rightarrow> db \<Rightarrow> user \<Rightarrow> int \<Rightarrow> update_body \<Rightarrow> response \<times> db" where
  "updateOrder e d u k b =
     (case Order_findByPk e d k of
        Inl err \<Rightarrow> (Response 500 (Failure ''Internal server error''), d)
      | Inr None \<Rightarrow> (Response 404 (Failure ''Order not found''), d)
      | Inr (Some ord) \<Rightarrow>
          if role u = RoleUser \<and> userId ord \<noteq> uid u then
            (Response 403 (Failure ''Access denied''), d)
          else if truthy_str (up_status b) \<and> parse_status (the (up_status b)) = None then
            (Response 500 (Failure ''Internal server error''), d)
          else
            (case Order_update e d ord
                    (updateData b (if truthy_str (up_status b)
                                   then parse_status (the (up_status b)) else None)) of
               Inl err \<Rightarrow> (Response 500 (Failure ''Internal server error''), d)
             | Inr (ord', d') \<Rightarrow>
                 (case Order_findByPk e d' k of
                    Inl err \<Rightarrow> (Response 500 (Failure ''Internal server error''), d')
                  | Inr updatedOrder \<Rightarrow> (Response 200 (OrderData updatedOrder), d'))))"

section \<open>Payment controller\<close>

text \<open>\<open>Math.round\<close>: the nearest integer, a half rounded up.\<close>

definition Math_round :: "rat \<Rightarrow> int" where
  "Math_round x = \<lfloor>x + 1 / 2\<rfloor>"

definition createPaymentIntent :: "env \<Rightarrow> db \<Rightarrow> user \<Rightarrow> int option \<Rightarrow> response \<times> db" where
  "createPaymentIntent e d u orderId =
     (if \<not> truthy_int orderId then (Response 400 (Failure ''Order ID is required''), d)
      else
        (case Order_findOne e d (the orderId) (uid u) of
           Inl err \<Rightarrow> (Response 500 (Failure ''Error creating payment intent''), d)
         | Inr None \<Rightarrow> (Response 404 (Failure ''Order not found''), d)
         | Inr (Some ord) \<Rightarrow>
             if paymentStatus ord = Paid then
               (Response 400 (Failure ''Order is already paid''), d)
             else
               (case intents_create e (Math_round (totalAmount ord * 100)) (oid ord) (uid u) of
                  None \<Rightarrow> (Response 500 (Failure ''Error creating payment intent''), d)
                | Some paymentIntent \<Rightarrow>
                    (Response 200 (IntentCreated (pi_client_secret paymentIntent) (oid ord)), d))))"

record confirm_body =
  cp_orderId :: "int option"
  cp_paymentIntentId :: "string option"

definition confirmPayment :: "env \<Rightarrow> db \<Rightarrow> user \<Rightarrow> confirm_body \<Rightarrow> response \<times> db" where
  "confirmPayment e d u b =
     (if \<not> truthy_int (cp_orderId b) \<or> \<not> truthy_str (cp_paymentIntentId b) then
        (Response 400 (Failure ''Order ID and Payment Intent ID are required''), d)
      else
        (case Order_findOne e d (the (cp_orderId b)) (uid u) of
           Inl err \<Rightarrow> (Response 500 (Failure ''Error confirming payment''), d)
         | Inr None \<Rightarrow> (Response 404 (Failure ''Order not found''), d)
         | Inr (Some ord) \<Rightarrow>
             (case intents_retrieve e (the (cp_paymentIntentId b)) of
                None \<Rightarrow> (Response 500 (Failure ''Error confirming payment''), d)
              | Some paymentIntent \<Rightarrow>
                  if pi_status paymentIntent = ''succeeded'' then
                    (case Order_update e d ord
                            (\<lambda>x. x\<lparr>paymentStatus := Paid,
                                    paymentId := cp_paymentIntentId b,
                                    status := Processing\<rparr>) of
                       Inl err \<Rightarrow> (Response 500 (Failure ''Error confirming payment''), d)
                     | Inr (ord', d') \<Rightarrow>
                         (Response 200 (PaymentConfirmed ''Payment confirmed successfully'' ord'), d'))
                  else (Response 400 (Failure ''Payment not completed''), d))))"

text \<open>
  The two event handlers. Each wraps its whole body in a \<open>try\<close> whose \<open>catch\<close> only logs:
  the handler never rejects, and a throw inside leaves the store as it was.
\<close>

definition handlePaymentSuccess_try :: "env \<Rightarrow> db \<Rightarrow> intent \<Rightarrow> error + db" where
  "handlePaymentSuccess_try e d paymentIntent =
     (case pi_metadata_orderId paymentIntent of
        None \<Rightarrow> Inr d
      | Some orderId \<Rightarrow>
          (case Order_findByPk e d orderId of
             Inl err \<Rightarrow> Inl err
           | Inr None \<Rightarrow> Inr d
           | Inr (Some ord) \<Rightarrow>
               (case Order_update e d ord
                       (\<lambda>x. x\<lparr>paymentStatus := Paid,
                               paymentId := Some (pi_id paymentIntent),
                               status := Processing\<rparr>) of
                  Inl err \<Rightarrow> Inl err
                | Inr (ord', d') \<Rightarrow> Inr d')))"

definition handlePaymentSuccess :: "env \<Rightarrow> db \<Rightarrow> intent \<Rightarrow> error + db" where
  "handlePaymentSuccess e d paymentIntent =
     (case handlePaymentSuccess_try e d paymentIntent of
        Inl err \<Rightarrow> Inr d
      | Inr d' \<Rightarrow> Inr d')"

definition handlePaymentFailure_try :: "env \<Rightarrow> db \<Rightarrow> intent \<Rightarrow> error + db" where
  "handlePaymentFailure_try e d paymentIntent =
     (case pi_metadata_orderId paymentIntent of
        None \<Rightarrow> Inr d
      | Some orderId \<Rightarrow>
          (case Order_findByPk e d orderId of
             Inl err \<Rightarrow> Inl err
           | Inr None \<Rightarrow> Inr d
           | Inr (Some ord) \<Rightarrow>
               (case Order_update e d ord
                       (\<lambda>x. x\<lparr>paymentStatus := Failed,
                               paymentId := Some (pi_id paymentIntent)\<rparr>) of
                  Inl err \<Rightarrow> Inl err
                | Inr (ord', d') \<Rightarrow> Inr d')))"

definition handlePaymentFailure :: "env \<Rightarrow> db \<Rightarrow> intent \<Rightarrow> error + db" where
  "handlePaymentFailure e d paymentIntent =
     (case handlePaymentFailure_try e d paymentIntent of
        Inl err \<Rightarrow> Inr d
      | Inr d' \<Rightarrow> Inr d')"

record event =
  ev_type :: string
  ev_object :: intent

text \<open>
  \<open>handleWebhook\<close>. The argument is the outcome of \<open>stripe.webhooks.constructEvent\<close>:
  the message of the error it throws on a bad signature, or the verified event.
\<close>

definition handleWebhook :: "env \<Rightarrow> db \<Rightarrow> string + event \<Rightarrow> response \<times> db" where
  "handleWebhook e d constructed =
     (case constructed of
        Inl message \<Rightarrow> (Response 400 (Text (''Webhook Error: '' @ message)), d)
      | Inr ev \<Rightarrow>
          (case (if ev_type ev = ''payment_intent.succeeded''
                   then handlePaymentSuccess e d (ev_object ev)
                 else if ev_type ev = ''payment_intent.payment_failed''
                   then handlePaymentFailure e d (ev_object ev)
                 else Inr d) of
             Inl err \<Rightarrow> (Response 500 (WebhookFailed ''Webhook processing failed''), d)
           | Inr d' \<Rightarrow> (Response 200 Received, d')))"

record refund_body =
  rf_orderId :: "int option"
  rf_reason :: "string option"
  rf_amount :: "rat option"

definition processRefund :: "env \<Rightarrow> db \<Rightarrow> refund_body \<Rightarrow> response \<times> db" where
  "processRefund e d b =
     (if \<not> truthy_int (rf_orderId b) \<or> \<not> truthy_str (rf_reason b) then
        (Response 400 (Failure ''Order ID and reason are required''), d)
      else
        (case Order_findByPk e d (the (rf_orderId b)) of
           Inl err \<Rightarrow> (Response 500 (Failure ''Error processing refund''), d)
         | Inr None \<Rightarrow> (Response 404 (Failure ''Order not found''), d)
         | Inr (Some ord) \<Rightarrow>
             if paymentStatus ord \<noteq> Paid then
               (Response 400 (Failure ''Order is not paid''), d)
             else if \<not> truthy_str (paymentId ord) then
               (Response 400 (Failure ''No payment ID found for this order''), d)
             else
               let refundAmount =
                     (if truthy_rat (rf_amount b) then Math_round (the (rf_amount b) * 100)
                      else Math_round (totalAmount ord * 100))
               in (case refunds_create e (the (paymentId ord)) refundAmount of
                     None \<Rightarrow> (Response 500 (Failure ''Error processing refund''), d)
                   | Some refund \<Rightarrow>
                       (case Order_update e d ord
                               (\<lambda>x. x\<lparr>paymentStatus := Refunded, status := Cancelled\<rparr>) of
                          Inl err \<Rightarrow> (Response 500 (Failure ''Error processing refund''), d)
                        | Inr (ord', d') \<Rightarrow>
                            (Response 200
                               (RefundProcessed ''Refund processed successfully'' (re_id refund)
                                  (of_int (re_amount refund) / 100) (re_status refund)), d')))))"

section \<open>The operations of the two controllers\<close>

datatype request =
    CreateOrder user create_body
  | GetOrderById user int
  | UpdateOrder user int update_body
  | CreatePaymentIntent user "int option"
  | ConfirmPayment user confirm_body
  | Webhook "string + event"
  | ProcessRefund refund_body

fun handle :: "env \<Rightarrow> db \<Rightarrow> request \<Rightarrow> response option \<times> db" where
  "handle e d (CreateOrder u b) = createOrder e d u b"
| "handle e d (GetOrderById u k) = (Some (getOrderById e d u k), d)"
| "handle e d (UpdateOrder u k b) = (case updateOrder e d u k b of (r, d') \<Rightarrow> (Some r, d'))"
| "handle e d (CreatePaymentIntent u k) =
     (case createPaymentIntent e d u k of (r, d') \<Rightarrow> (Some r, d'))"
| "handle e d (ConfirmPayment u b) = (case confirmPayment e d u b of (r, d') \<Rightarrow> (Some r, d'))"
| "handle e d (Webhook c) = (case handleWebhook e d c of (r, d') \<Rightarrow> (Some r, d'))"
| "handle e d (ProcessRefund b) = (case processRefund e d b of (r, d') \<Rightarrow> (Some r, d'))"

section \<open>Notions used in the statements\<close>

text \<open>The edges of \<open>paymentStatus\<close> that the specification names.\<close>

definition spec_edge :: "payment_status \<Rightarrow> payment_status \<Rightarrow> bool" where
  "spec_edge a b \<longleftrightarrow>
     (a = PaymentPending \<and> b = Paid) \<or> (a = PaymentPending \<and> b = Failed) \<or>
     (a = Paid \<and> b = Refunded)"

text \<open>The change of \<open>paymentStatus\<close> that each operation can make to an order.\<close>

fun op_edge :: "request \<Rightarrow> payment_status \<Rightarrow> payment_status \<Rightarrow> bool" where
  "op_edge (ConfirmPayment u b) a s = (s = Paid)"
| "op_edge (Webhook (Inr ev)) a s =
     (if ev_type ev = ''payment_intent.succeeded'' then s = Paid
      else if ev_type ev = ''payment_intent.payment_failed'' then s = Failed
      else False)"
| "op_edge (ProcessRefund b) a s = (a = Paid \<and> s = Refunded)"
| "op_edge rq a s = False"

definition is_digit :: "char \<Rightarrow> bool" where
  "is_digit c \<longleftrightarrow> c \<in> set ''0123456789''"

definition is_upper_alnum :: "char \<Rightarrow> bool" where
  "is_upper_alnum c \<longleftrightarrow> c \<in> set ''0123456789ABCDEFGHIJKLMNOPQRSTUVWXYZ''"

definition is_base36 :: "char \<Rightarrow> bool" where
  "is_base36 c \<longleftrightarrow> c \<in> set ''0123456789abcdefghijklmnopqrstuvwxyz''"

text \<open>
  The texts that \<open>Math.random().toString(36)\<close> can be: \<open>0\<close>, or \<open>0.\<close> followed by
  base-36 digits.
\<close>

definition random36_wf :: "string \<Rightarrow> bool" where
  "random36_wf r \<longleftrightarrow>
     r = ''0'' \<or> (take 2 r = ''0.'' \<and> drop 2 r \<noteq> [] \<and> list_all is_base36 (drop 2 r))"

text \<open>
  Reading an order number of the shape \<open>ORD-<digits>-<token>\<close>, with at least one digit and
  a token of upper-case letters and digits: the token, or \<open>None\<close> for any other text.
\<close>

definition order_number_token :: "string \<Rightarrow> string option" where
  "order_number_token s =
     (if take 4 s = ''ORD-'' then
        (case dropWhile is_digit (drop 4 s) of
           [] \<Rightarrow> None
         | c # tok \<Rightarrow>
             if c = CHR ''-'' \<and> takeWhile is_digit (drop 4 s) \<noteq> [] \<and> list_all is_upper_alnum tok
             then Some tok else None)
      else None)"

section \<open>Example data\<close>

definition addr0 :: address where
  "addr0 = \<lparr>street = ''1 Main St'', city = ''Springfield'', state = ''IL'',
            zipCode = ''62701'', country = ''US''\<rparr>"

text \<open>An intent that has succeeded, created for order 2 of user 7, for 5.00.\<close>

definition intent2 :: intent where
  "intent2 = \<lparr>pi_id = ''pi_2'', pi_status = ''succeeded'', pi_amount = 500,
      pi_client_secret = ''pi_2_secret'', pi_metadata_orderId = Some 2,
      pi_metadata_userId = Some 7\<rparr>"

text \<open>The same, created for order 1 of user 1, for 37.50.\<close>

definition intent1 :: intent where
  "intent1 = \<lparr>pi_id = ''pi_1'', pi_status = ''succeeded'', pi_amount = 3750,
      pi_client_secret = ''pi_1_secret'', pi_metadata_orderId = Some 1,
      pi_metadata_userId = Some 1\<rparr>"

text \<open>
  An environment in which no call throws. On the numbers of the examples below, double
  arithmetic is exact.
\<close>

definition env0 :: env where
  "env0 = \<lparr>now = 1700000000000, random36 = ''0.4fzyo82mvyr'', fails = (\<lambda>c. False),
      js_add = (\<lambda>a b. a + b), js_mul = (\<lambda>a b. a * b),
      intents_create = (\<lambda>amount k u. Some (intent1\<lparr>pi_status := ''requires_payment_method'',
         pi_amount := amount, pi_metadata_orderId := Some k, pi_metadata_userId := Some u\<rparr>)),
      intents_retrieve = (\<lambda>i. if i = ''pi_1'' then Some intent1
                               else if i = ''pi_2'' then Some intent2 else None),
      refunds_create = (\<lambda>i a. Some \<lparr>re_id = ''re_1'', re_amount = a, re_status = ''succeeded''\<rparr>)\<rparr>"

definition db0 :: db where
  "db0 = \<lparr>orders = [], products = [\<lparr>pid = 1, stock = 1\<rparr>, \<lparr>pid = 2, stock = 7\<rparr>]\<rparr>"

definition alice :: user where
  "alice = \<lparr>uid = 1, role = RoleUser\<rparr>"

text \<open>The request of the specification's example: 2 at 10.00 and 1 at 5.00.\<close>

definition body0 :: create_body where
  "body0 = \<lparr>c_items = ItemsArray [\<lparr>productId = 1, quantity = 2, price = 10\<rparr>,
                                   \<lparr>productId = 2, quantity = 1, price = 5\<rparr>],
            c_shippingAddress = Some addr0, c_billingAddress = None, c_notes = None\<rparr>"

text \<open>An order for these items.\<close>

definition order1 :: order where
  "order1 = \<lparr>oid = 1, orderNumber = Some ''ORD-1700000000000-4FZYO82MV'', userId = 1,
      items = [\<lparr>productId = 1, quantity = 2, price = 10\<rparr>,
               \<lparr>productId = 2, quantity = 1, price = 5\<rparr>],
      subtotal = 25, tax = 5 / 2, shipping = 10, discount = 0, totalAmount = 75 / 2,
      status = Pending, paymentStatus = PaymentPending, paymentMethod = None, paymentId = None,
      shippingAddress = Some addr0, billingAddress = Some addr0, notes' = None,
      estimatedDelivery = None, trackingNumber = None, cancelledAt = None, cancelledBy = None,
      cancelReason = None\<rparr>"

text \<open>A store that holds order 1, pending, of user 1.\<close>

definition db1 :: db where
  "db1 = \<lparr>orders = [order1],
           products = [\<lparr>pid = 1, stock = - 1\<rparr>, \<lparr>pid = 2, stock = 6\<rparr>]\<rparr>"

definition confirm1 :: confirm_body where
  "confirm1 = \<lparr>cp_orderId = Some 1, cp_paymentIntentId = Some ''pi_1''\<rparr>"

definition refund1 :: refund_body where
  "refund1 = \<lparr>rf_orderId = Some 1, rf_reason = Some ''damaged'', rf_amount = None\<rparr>"

text \<open>The store after order 1 is confirmed with intent \<open>pi_1\<close>, and after it is refunded.\<close>

definition db2 :: db where
  "db2 = db1\<lparr>orders := [order1\<lparr>paymentStatus := Paid, paymentId := Some ''pi_1'',
                                 status := Processing\<rparr>]\<rparr>"

definition db3 :: db where
  "db3 = db1\<lparr>orders := [order1\<lparr>paymentStatus := Refunded, paymentId := Some ''pi_1'',
                                 status := Cancelled\<rparr>]\<rparr>"

text \<open>The provider reports that \<open>pi_1\<close> has succeeded.\<close>

definition event1 :: event where
  "event1 = \<lparr>ev_type = ''payment_intent.succeeded'', ev_object = intent1\<rparr>"

text \<open>Order 1 is confirmed with the intent of order 2.\<close>

definition confirm2 :: confirm_body where
  "confirm2 = \<lparr>cp_orderId = Some 1, cp_paymentIntentId = Some ''pi_2''\<rparr>"

section \<open>Auxiliary facts\<close>

lemma fails_env0: "fails env0 c = False"
  by (simp add: env0_def)

text \<open>
  \<open>createOrder\<close> hands no order number to \<open>Order.create\<close>, so the values fail
  \<open>allowNull: false\<close> before the hook can generate one: the transaction throws at its first
  statement, whatever the request and the environment.
\<close>

lemma validate_order_values: "\<not> validate (order_values uu its sub tx sh tot ship bill nts)"
  by (simp add: validate_def order_values_def)

lemma Order_create_order_values:
  "Order_create e (order_values uu its sub tx sh tot ship bill nts) d = Inl ValidationError"
  by (simp add: Order_create_def validate_order_values)

lemma create_transaction_order_values:
  "create_transaction e d (order_values uu its sub tx sh tot ship bill nts) its' = Inl ValidationError"
  by (simp add: create_transaction_def Order_create_order_values)

lemma createOrder_store: "snd (createOrder e d u b) = d"
  by (simp add: createOrder_def Let_def create_transaction_order_values
      split: items_field.splits option.splits)

lemma createOrder_never_201: "fst (createOrder e d u b) \<noteq> Some (Response 201 bd)"
  by (simp add: createOrder_def Let_def create_transaction_order_values
      split: items_field.splits option.splits)

text \<open>A request that passes the checks of the handler is answered with 500.\<close>

lemma createOrder_valid_request:
  assumes "c_items b = ItemsArray its" and "its \<noteq> []" and "c_shippingAddress b = Some ship"
    and "\<not> fails e TxBegin" and "\<not> fails e TxRollback"
  shows "createOrder e d u b = (Some (Response 500 (Failure ''Internal server error'')), d)"
  using assms by (simp add: createOrder_def Let_def create_transaction_order_values)

text \<open>When the transaction can be opened, a request without items is answered with 400.\<close>

lemma createOrder_bad_items:
  assumes "c_items b = ItemsMissing \<or> c_items b = ItemsNotArray \<or> c_items b = ItemsArray []"
    and "\<not> fails e TxBegin"
  shows "createOrder e d u b =
           (Some (Response 400 (Failure ''Items are required and must be a non-empty array'')), d)"
  using assms by (auto simp: createOrder_def)

lemma Order_update_Inr:
  assumes "Order_update e d ord f = Inr (ord', d')"
  shows "ord' = f ord"
    and "d' = rewrite_row (oid ord) f d"
    and "\<not> fails e OrderUpdate"
  using assms by (auto simp: Order_update_def split: if_splits)

text \<open>What each operation of the payment controller can do to the store.\<close>

lemma updateOrder_store:
  assumes "updateOrder e d u k b = (r, d')"
  shows "d' = d \<or> (\<exists>key st. d' = rewrite_row key (updateData b st) d)"
  using assms
  by (auto simp: updateOrder_def split: sum.splits option.splits if_splits prod.splits
        dest!: Order_update_Inr(2))

lemma createPaymentIntent_store: "snd (createPaymentIntent e d u k) = d"
  by (auto simp: createPaymentIntent_def split: sum.splits option.splits)

lemma confirmPayment_store:
  assumes "confirmPayment e d u b = (r, d')"
  shows "d' = d \<or>
         (\<exists>key. d' = rewrite_row key (\<lambda>x. x\<lparr>paymentStatus := Paid,
                         paymentId := cp_paymentIntentId b, status := Processing\<rparr>) d)"
  using assms
  by (auto simp: confirmPayment_def split: sum.splits option.splits if_splits prod.splits
        dest!: Order_update_Inr(2))

lemma handlePaymentSuccess_store:
  "\<exists>d'. handlePaymentSuccess e d p = Inr d' \<and>
     (d' = d \<or>
      (\<exists>key. d' = rewrite_row key (\<lambda>x. x\<lparr>paymentStatus := Paid,
                      paymentId := Some (pi_id p), status := Processing\<rparr>) d))"
  by (auto simp: handlePaymentSuccess_def handlePaymentSuccess_try_def
        split: sum.splits option.splits prod.splits dest!: Order_update_Inr(2))

lemma handlePaymentFailure_store:
  "\<exists>d'. handlePaymentFailure e d p = Inr d' \<and>
     (d' = d \<or>
      (\<exists>key. d' = rewrite_row key (\<lambda>x. x\<lparr>paymentStatus := Failed,
                      paymentId := Some (pi_id p)\<rparr>) d))"
  by (auto simp: handlePaymentFailure_def handlePaymentFailure_try_def
        split: sum.splits option.splits prod.splits dest!: Order_update_Inr(2))

lemma processRefund_store:
  assumes "processRefund e d b = (r, d')"
  shows "d' = d \<or>
         (\<exists>ord. find (\<lambda>x. oid x = oid ord) (orders d) = Some ord \<and> paymentStatus ord = Paid \<and>
            d' = rewrite_row (oid ord) (\<lambda>x. x\<lparr>paymentStatus := Refunded, status := Cancelled\<rparr>) d)"
proof (cases "d' = d")
  case True
  then show ?thesis by simp
next
  case False
  with assms obtain ord ord' where
    f: "Order_findByPk e d (the (rf_orderId b)) = Inr (Some ord)" and p: "paymentStatus ord = Paid"
    and u: "Order_update e d ord (\<lambda>x. x\<lparr>paymentStatus := Refunded, status := Cancelled\<rparr>) = Inr (ord', d')"
    by (auto simp: processRefund_def Let_def split: sum.splits option.splits if_splits prod.splits)
  from f have found: "find (\<lambda>x. oid x = the (rf_orderId b)) (orders d) = Some ord"
    by (auto simp: Order_findByPk_def split: if_splits)
  then have key: "the (rf_orderId b) = oid ord"
    by (auto simp: find_Some_iff)
  have "find (\<lambda>x. oid x = oid ord) (orders d) = Some ord"
    using found unfolding key .
  with p Order_update_Inr(2) [OF u] show ?thesis by blast
qed

lemma rewrite_row_products: "products (rewrite_row key f d) = products d"
  by (simp add: rewrite_row_def)

lemma handleWebhook_store:
  assumes "handleWebhook e d c = (r, d')"
  shows "d' = d \<or>
     (\<exists>ev key. c = Inr ev \<and> ev_type ev = ''payment_intent.succeeded'' \<and>
        d' = rewrite_row key (\<lambda>x. x\<lparr>paymentStatus := Paid,
               paymentId := Some (pi_id (ev_object ev)), status := Processing\<rparr>) d) \<or>
     (\<exists>ev key. c = Inr ev \<and> ev_type ev = ''payment_intent.payment_failed'' \<and>
        d' = rewrite_row key (\<lambda>x. x\<lparr>paymentStatus := Failed,
               paymentId := Some (pi_id (ev_object ev))\<rparr>) d)"
proof (cases c)
  case (Inl message)
  with assms show ?thesis by (simp add: handleWebhook_def)
next
  case (Inr ev)
  consider (s) "ev_type ev = ''payment_intent.succeeded''"
    | (f) "ev_type ev \<noteq> ''payment_intent.succeeded''" "ev_type ev = ''payment_intent.payment_failed''"
    | (o) "ev_type ev \<noteq> ''payment_intent.succeeded''" "ev_type ev \<noteq> ''payment_intent.payment_failed''"
    by blast
  then show ?thesis
  proof cases
    case s
    from handlePaymentSuccess_store [of e d "ev_object ev"] assms Inr s
    show ?thesis by (auto simp: handleWebhook_def)
  next
    case f
    from handlePaymentFailure_store [of e d "ev_object ev"] assms Inr f
    show ?thesis by (auto simp: handleWebhook_def)
  next
    case o
    with assms Inr show ?thesis by (simp add: handleWebhook_def)
  qed
qed

text \<open>No operation of the two controllers changes the products table.\<close>

lemma handle_products: "products (snd (handle e d rq)) = products d"
proof (cases rq)
  case (CreateOrder u b)
  then show ?thesis by (simp add: createOrder_store)
next
  case (GetOrderById u k)
  then show ?thesis by simp
next
  case (UpdateOrder u k b)
  obtain r' d' where h: "updateOrder e d u k b = (r', d')" by (cases "updateOrder e d u k b")
  from updateOrder_store [OF h] UpdateOrder h show ?thesis
    by (auto simp: rewrite_row_products)
next
  case (CreatePaymentIntent u k)
  with createPaymentIntent_store [of e d u k] show ?thesis
    by (auto split: prod.splits)
next
  case (ConfirmPayment u b)
  obtain r' d' where h: "confirmPayment e d u b = (r', d')" by (cases "confirmPayment e d u b")
  from confirmPayment_store [OF h] ConfirmPayment h show ?thesis
    by (auto simp: rewrite_row_products)
next
  case (Webhook c)
  obtain r' d' where h: "handleWebhook e d c = (r', d')" by (cases "handleWebhook e d c")
  from handleWebhook_store [OF h] Webhook h show ?thesis
    by (auto simp: rewrite_row_products)
next
  case (ProcessRefund b)
  obtain r' d' where h: "processRefund e d b = (r', d')" by (cases "processRefund e d b")
  from processRefund_store [OF h] ProcessRefund h show ?thesis
    by (auto simp: rewrite_row_products)
qed

lemma rewrite_row_length: "length (orders (rewrite_row key f d)) = length (orders d)"
  by (simp add: rewrite_row_def)

lemma rewrite_row_step:
  assumes "\<And>x. oid (f x) = oid x"
    and "\<And>x. x \<in> set (orders d) \<Longrightarrow> oid x = key \<Longrightarrow>
           paymentStatus (f x) = paymentStatus x \<or> E (paymentStatus x) (paymentStatus (f x))"
    and "i < length (orders d)"
  shows "oid (orders (rewrite_row key f d) ! i) = oid (orders d ! i) \<and>
         (paymentStatus (orders (rewrite_row key f d) ! i) = paymentStatus (orders d ! i) \<or>
          E (paymentStatus (orders d ! i)) (paymentStatus (orders (rewrite_row key f d) ! i)))"
  using assms by (auto simp: rewrite_row_def)

lemma rewrite_row_oids:
  assumes "\<And>x. oid (f x) = oid x"
  shows "map oid (orders (rewrite_row key f d)) = map oid (orders d)"
  using assms by (auto simp: rewrite_row_def)

lemma find_distinct_key:
  assumes "distinct (map oid xs)" and "find (\<lambda>x. oid x = k) xs = Some ord"
    and "x \<in> set xs" and "oid x = k"
  shows "x = ord"
proof -
  from assms(2) have "ord \<in> set xs" "oid ord = k"
    by (auto simp: find_Some_iff)
  moreover from assms(1) have "inj_on oid (set xs)"
    by (simp add: distinct_map)
  ultimately show ?thesis
    using assms(3,4) by (auto dest: inj_onD)
qed

lemmas payment_defs = truthy_int_def truthy_str_def truthy_rat_def Order_findOne_def
  Order_findByPk_def Order_update_def rewrite_row_def fails_env0

lemma round_total: "Math_round 3750 = 3750"
  unfolding Math_round_def by code_simp

lemma confirm_db1: "confirmPayment env0 db1 alice confirm1 =
    (Response 200 (PaymentConfirmed ''Payment confirmed successfully''
       (order1\<lparr>paymentStatus := Paid, paymentId := Some ''pi_1'', status := Processing\<rparr>)), db2)"
  by (simp add: confirmPayment_def payment_defs confirm1_def db1_def db2_def order1_def alice_def
      env0_def intent1_def)

lemma refund_db2: "processRefund env0 db2 refund1 =
    (Response 200 (RefundProcessed ''Refund processed successfully'' ''re_1'' (75 / 2) ''succeeded''), db3)"
  by (simp add: processRefund_def payment_defs refund1_def db1_def db2_def db3_def order1_def
      env0_def round_total)

lemma confirm_db3: "confirmPayment env0 db3 alice confirm1 =
    (Response 200 (PaymentConfirmed ''Payment confirmed successfully''
       (order1\<lparr>paymentStatus := Paid, paymentId := Some ''pi_1'', status := Processing\<rparr>)), db2)"
  by (simp add: confirmPayment_def payment_defs confirm1_def db1_def db2_def db3_def order1_def alice_def
      env0_def intent1_def)

lemma find_rewrite_row:
  assumes "find (\<lambda>x. oid x = k) (orders d) = Some ord" and "\<And>x. oid (f x) = oid x"
  shows "find (\<lambda>x. oid x = k) (orders (rewrite_row k f d)) = Some (f ord)"
proof -
  have "find (\<lambda>x. oid x = k) xs = Some ord \<Longrightarrow>
        find (\<lambda>x. oid x = k) (map (\<lambda>x. if oid x = k then f x else x) xs) = Some (f ord)" for xs
    by (induction xs) (auto simp: assms(2))
  with assms(1) show ?thesis by (simp add: rewrite_row_def)
qed

lemma rewrite_row_idem:
  assumes "\<And>x. oid (f x) = oid x" and "\<And>x. f (f x) = f x"
  shows "rewrite_row k f (rewrite_row k f d) = rewrite_row k f d"
  using assms by (simp add: rewrite_row_def)

lemma find_key: "find (\<lambda>x. oid x = k) xs = Some ord \<Longrightarrow> oid ord = k"
  by (auto simp: find_Some_iff)

lemma handlePaymentSuccess_ok:
  assumes "pi_metadata_orderId p = Some k" and "find (\<lambda>x. oid x = k) (orders d) = Some ord"
    and "\<not> fails e OrderFindByPk" and "\<not> fails e OrderUpdate"
  shows "handlePaymentSuccess e d p =
           Inr (rewrite_row k (\<lambda>x. x\<lparr>paymentStatus := Paid, paymentId := Some (pi_id p),
                                      status := Processing\<rparr>) d)"
  using assms find_key [OF assms(2)]
  by (simp add: handlePaymentSuccess_def handlePaymentSuccess_try_def Order_findByPk_def
      Order_update_def)

lemma digit_nth: "k < 10 \<Longrightarrow> is_digit (''0123456789'' ! k)"
  unfolding is_digit_def by (rule nth_mem) simp

lemma digits10_digits: "list_all is_digit (digits10 n) \<and> digits10 n \<noteq> []"
proof (induction n rule: digits10.induct)
  case (1 n)
  show ?case
  proof (cases "n < 10")
    case True
    then show ?thesis
      by (subst (1 2) digits10.simps) (simp add: digit_nth)
  next
    case False
    with "1.IH" have "list_all is_digit (digits10 (n div 10))" by simp
    moreover have "is_digit (''0123456789'' ! (n mod 10))"
      by (rule digit_nth) simp
    ultimately show ?thesis
      using False by (subst (1 2) digits10.simps) simp
  qed
qed

lemma toUpperCase_char_alnum: "is_base36 c \<Longrightarrow> is_upper_alnum (toUpperCase_char c)"
  unfolding is_base36_def is_upper_alnum_def toUpperCase_char_def
  by (elim set_ConsD [elim_format]) auto

lemma token_shape:
  assumes "random36_wf r"
  shows "list_all is_upper_alnum (toUpperCase (substr r 2 9))"
    and "length (toUpperCase (substr r 2 9)) \<le> 9"
proof -
  have "list_all is_base36 (drop 2 r)"
    using assms by (auto simp: random36_wf_def)
  then have "list_all is_base36 (take 9 (drop 2 r))"
    by (auto simp: list_all_iff dest: in_set_takeD)
  then show "list_all is_upper_alnum (toUpperCase (substr r 2 9))"
    by (auto simp: toUpperCase_def substr_def list_all_iff toUpperCase_char_alnum)
  show "length (toUpperCase (substr r 2 9)) \<le> 9"
    by (simp add: toUpperCase_def substr_def)
qed

lemma not_digit_dash: "\<not> is_digit CHR ''-''"
  by (simp add: is_digit_def)

lemma order_number_token_shape:
  assumes "ds \<noteq> []" and "list_all is_digit ds" and "list_all is_upper_alnum tok"
  shows "order_number_token (''ORD-'' @ ds @ ''-'' @ tok) = Some tok"
proof -
  have all: "\<And>x. x \<in> set ds \<Longrightarrow> is_digit x"
    using assms(2) by (simp add: list_all_iff)
  have t: "takeWhile is_digit (ds @ CHR ''-'' # tok) = ds"
    by (simp add: takeWhile_append2 all not_digit_dash)
  have d: "dropWhile is_digit (ds @ CHR ''-'' # tok) = CHR ''-'' # tok"
    by (simp add: dropWhile_append2 all not_digit_dash)
  show ?thesis
    using assms(1,3) by (simp add: order_number_token_def t d)
qed

lemma generateOrderNumber_shape:
  assumes "random36_wf (random36 e)"
  shows "order_number_token (generateOrderNumber e) = Some (toUpperCase (substr (random36 e) 2 9))"
  unfolding generateOrderNumber_def
  using digits10_digits [of "now e"] token_shape(1) [OF assms]
  by (intro order_number_token_shape) simp_all

section \<open>Order totals\<close>


section \<open>Rejected requests\<close>

text \<open>
  C8. A request without items should be answered with 400. Here opening the transaction,
  the first statement of the handler and outside its \<open>try\<close>, throws: the request with an
  empty array of items gets no response. The store is unchanged.
\<close>

theorem createOrder_bad_items_unanswered:
  "createOrder (env0\<lparr>fails := (\<lambda>c. c = TxBegin)\<rparr>) db0 alice (body0\<lparr>c_items := ItemsArray []\<rparr>)
     = (None, db0)"
  by (simp add: createOrder_def)

section \<open>Atomicity of order creation\<close>


section \<open>Stock\<close>


section \<open>Payment status\<close>

text \<open>
  C3, as the code has it. Every operation keeps the keys of the orders and changes the
  payment status of an order only as follows: payment confirm and a succeeded webhook set
  it to paid, a failed webhook sets it to failed, both from any status; a refund moves it
  from paid to refunded; an order that is created starts as pending. Primary keys are
  taken to be distinct, and stay so.
\<close>

theorem paymentStatus_moves:
  assumes "handle e d rq = (r, d')" and "distinct (map oid (orders d))"
  shows "distinct (map oid (orders d')) \<and> length (orders d) \<le> length (orders d') \<and>
         (\<forall>i < length (orders d).
            oid (orders d' ! i) = oid (orders d ! i) \<and>
            (paymentStatus (orders d' ! i) = paymentStatus (orders d ! i) \<or>
             op_edge rq (paymentStatus (orders d ! i)) (paymentStatus (orders d' ! i)))) \<and>
         (\<forall>i. length (orders d) \<le> i \<and> i < length (orders d') \<longrightarrow>
            paymentStatus (orders d' ! i) = PaymentPending)"
    (is "?P d'")
proof -
  have same: "?P d"
    using assms(2) by auto
  have rewrite: "?P (rewrite_row key f d)"
    if "\<And>x. oid (f x) = oid x"
      and "\<And>x. x \<in> set (orders d) \<Longrightarrow> oid x = key \<Longrightarrow>
             paymentStatus (f x) = paymentStatus x \<or>
             op_edge rq (paymentStatus x) (paymentStatus (f x))"
    for key f
    using rewrite_row_step [of f d key "op_edge rq", OF that]
      rewrite_row_oids [of f key d, OF that(1)] assms(2)
    by (auto simp: rewrite_row_length)
  show ?thesis
  proof (cases rq)
    case (CreateOrder u b)
    with assms(1) createOrder_store [of e d u b] have "d' = d" by auto
    with same show ?thesis by simp
  next
    case (GetOrderById u k)
    with assms same show ?thesis by auto
  next
    case (UpdateOrder u k b)
    with assms obtain r' where "updateOrder e d u k b = (r', d')" by (auto split: prod.splits)
    from updateOrder_store [OF this] show ?thesis
    proof (elim disjE exE)
      fix key st
      assume d': "d' = rewrite_row key (updateData b st) d"
      show ?thesis unfolding d'
        by (rule rewrite) (auto simp: updateData_def Let_def split: option.splits)
    qed (use same in simp)
  next
    case (CreatePaymentIntent u k)
    with assms createPaymentIntent_store [of e d u k] same show ?thesis
      by (auto split: prod.splits)
  next
    case (ConfirmPayment u b)
    with assms obtain r' where "confirmPayment e d u b = (r', d')" by (auto split: prod.splits)
    from confirmPayment_store [OF this] show ?thesis
    proof (elim disjE exE)
      fix key
      assume d': "d' = rewrite_row key (\<lambda>x. x\<lparr>paymentStatus := Paid,
                         paymentId := cp_paymentIntentId b, status := Processing\<rparr>) d"
      show ?thesis unfolding d'
        by (rule rewrite) (simp_all add: ConfirmPayment)
    qed (use same in simp)
  next
    case (Webhook c)
    with assms obtain r' where "handleWebhook e d c = (r', d')" by (auto split: prod.splits)
    from handleWebhook_store [OF this] show ?thesis
    proof (elim disjE exE conjE)
      fix ev key
      assume c: "c = Inr ev" and t: "ev_type ev = ''payment_intent.succeeded''"
        and d': "d' = rewrite_row key (\<lambda>x. x\<lparr>paymentStatus := Paid,
               paymentId := Some (pi_id (ev_object ev)), status := Processing\<rparr>) d"
      show ?thesis unfolding d'
        by (rule rewrite) (simp_all add: Webhook c t)
    next
      fix ev key
      assume c: "c = Inr ev" and t: "ev_type ev = ''payment_intent.payment_failed''"
        and d': "d' = rewrite_row key (\<lambda>x. x\<lparr>paymentStatus := Failed,
               paymentId := Some (pi_id (ev_object ev))\<rparr>) d"
      show ?thesis unfolding d'
        by (rule rewrite) (simp_all add: Webhook c t)
    qed (use same in simp)
  next
    case (ProcessRefund b)
    with assms obtain r' where "processRefund e d b = (r', d')" by (auto split: prod.splits)
    from processRefund_store [OF this] show ?thesis
    proof (elim disjE exE conjE)
      fix ord
      assume f: "find (\<lambda>x. oid x = oid ord) (orders d) = Some ord"
        and p: "paymentStatus ord = Paid"
        and d': "d' = rewrite_row (oid ord) (\<lambda>x. x\<lparr>paymentStatus := Refunded, status := Cancelled\<rparr>) d"
      show ?thesis unfolding d'
      proof (rule rewrite)
        fix x assume "x \<in> set (orders d)" "oid x = oid ord"
        with find_distinct_key [OF assms(2) f] have "x = ord" by simp
        with p show "paymentStatus (x\<lparr>paymentStatus := Refunded, status := Cancelled\<rparr>) = paymentStatus x \<or>
          op_edge rq (paymentStatus x) (paymentStatus (x\<lparr>paymentStatus := Refunded, status := Cancelled\<rparr>))"
          by (simp add: ProcessRefund)
      qed simp
    qed (use same in simp)
  qed
qed

theorem paymentStatus_moves_witness:
  "handle env0 db3 (ConfirmPayment alice confirm1) =
     (Some (Response 200 (PaymentConfirmed ''Payment confirmed successfully''
        (order1\<lparr>paymentStatus := Paid, paymentId := Some ''pi_1'', status := Processing\<rparr>))), db2) \<and>
   distinct (map oid (orders db3)) \<and> distinct (map oid (orders db2)) \<and>
   paymentStatus (orders db3 ! 0) = Refunded \<and> paymentStatus (orders db2 ! 0) = Paid \<and>
   op_edge (ConfirmPayment alice confirm1) Refunded Paid"
proof -
  have h: "handle env0 db3 (ConfirmPayment alice confirm1) =
     (Some (Response 200 (PaymentConfirmed ''Payment confirmed successfully''
        (order1\<lparr>paymentStatus := Paid, paymentId := Some ''pi_1'', status := Processing\<rparr>))), db2)"
    by (simp add: confirm_db3)
  have d: "distinct (map oid (orders db3))"
    by (simp add: db3_def)
  from paymentStatus_moves [OF h d] h d show ?thesis
    by (simp add: db2_def db3_def)
qed

text \<open>
  C3 as stated fails: on a store that holds a pending order, a confirm and a refund take
  the order to refunded, and a second confirm with the same succeeded intent moves it from
  refunded to paid, which is none of the three edges.
\<close>

theorem paymentStatus_leaves_refunded:
  "snd (handle env0 db1 (ConfirmPayment alice confirm1)) = db2 \<and>
   snd (handle env0 db2 (ProcessRefund refund1)) = db3 \<and>
   snd (handle env0 db3 (ConfirmPayment alice confirm1)) = db2 \<and>
   map paymentStatus (orders db3) = [Refunded] \<and>
   map paymentStatus (orders db2) = [Paid] \<and>
   \<not> spec_edge Refunded Paid"
proof -
  have "map paymentStatus (orders db3) = [Refunded]" "map paymentStatus (orders db2) = [Paid]"
    by (simp_all add: db2_def db3_def)
  then show ?thesis
    by (simp add: confirm_db1 refund_db2 confirm_db3 spec_edge_def)
qed

section \<open>Webhook\<close>

text \<open>
  C6. When the order named by a succeeded event exists and neither the lookup nor the
  update throws, delivering the event once or twice leaves the same store, in which the
  order is paid, processing, and carries the id of the intent.
\<close>

theorem webhook_success_idempotent:
  assumes "ev_type ev = ''payment_intent.succeeded''"
    and "pi_metadata_orderId (ev_object ev) = Some k"
    and "find (\<lambda>x. oid x = k) (orders d) = Some ord"
    and "\<not> fails e1 OrderFindByPk" and "\<not> fails e1 OrderUpdate"
    and "\<not> fails e2 OrderFindByPk" and "\<not> fails e2 OrderUpdate"
  shows "\<exists>d1 ord'. handleWebhook e1 d (Inr ev) = (Response 200 Received, d1) \<and>
           handleWebhook e2 d1 (Inr ev) = (Response 200 Received, d1) \<and>
           find (\<lambda>x. oid x = k) (orders d1) = Some ord' \<and>
           paymentStatus ord' = Paid \<and> status ord' = Processing \<and>
           paymentId ord' = Some (pi_id (ev_object ev))"
proof -
  let ?f = "\<lambda>x. x\<lparr>paymentStatus := Paid, paymentId := Some (pi_id (ev_object ev)),
                    status := Processing\<rparr>"
  let ?d1 = "rewrite_row k ?f d"
  have once: "handlePaymentSuccess e1 d (ev_object ev) = Inr ?d1"
    by (rule handlePaymentSuccess_ok [OF assms(2,3,4,5)])
  have found: "find (\<lambda>x. oid x = k) (orders ?d1) = Some (?f ord)"
    by (rule find_rewrite_row [OF assms(3)]) simp
  have "handlePaymentSuccess e2 ?d1 (ev_object ev) = Inr (rewrite_row k ?f ?d1)"
    by (rule handlePaymentSuccess_ok [OF assms(2) found assms(6,7)])
  also have "rewrite_row k ?f ?d1 = ?d1"
    by (rule rewrite_row_idem) simp_all
  finally have twice: "handlePaymentSuccess e2 ?d1 (ev_object ev) = Inr ?d1" .
  have "handleWebhook e1 d (Inr ev) = (Response 200 Received, ?d1)"
    "handleWebhook e2 ?d1 (Inr ev) = (Response 200 Received, ?d1)"
    by (simp_all add: handleWebhook_def assms(1) once twice)
  with found show ?thesis by simp
qed

theorem webhook_success_idempotent_witness:
  "handleWebhook env0 db1 (Inr event1) = (Response 200 Received, db2) \<and>
   handleWebhook env0 db2 (Inr event1) = (Response 200 Received, db2) \<and>
   map paymentStatus (orders db2) = [Paid] \<and> map status (orders db2) = [Processing]"
proof -
  have a: "ev_type event1 = ''payment_intent.succeeded''"
    "pi_metadata_orderId (ev_object event1) = Some 1"
    "find (\<lambda>x. oid x = 1) (orders db1) = Some order1"
    by (simp_all add: event1_def intent1_def db1_def order1_def)
  have f: "\<not> fails env0 OrderFindByPk" "\<not> fails env0 OrderUpdate"
    by (simp_all add: fails_env0)
  have r: "rewrite_row 1 (\<lambda>x. x\<lparr>paymentStatus := Paid,
             paymentId := Some (pi_id (ev_object event1)), status := Processing\<rparr>) db1 = db2"
    by (simp add: rewrite_row_def db1_def db2_def order1_def event1_def intent1_def)
  have one: "handleWebhook env0 db1 (Inr event1) = (Response 200 Received, db2)"
    by (simp add: handleWebhook_def handlePaymentSuccess_ok [OF a(2,3) f] a(1) r)
  from webhook_success_idempotent [OF a f f] one show ?thesis
    by (auto simp: db2_def)
qed

text \<open>
  The event handlers never reject. For a verified event of a recognised kind, a throw of the
  lookup or of the update of the order is caught inside the handler: the webhook answers
  200 with \<open>received\<close>, the store is unchanged, and the \<open>catch\<close> of \<open>handleWebhook\<close> that
  answers 500 is not reached.
\<close>

lemma handleWebhook_swallows_throw:
  assumes "ev_type ev = ''payment_intent.succeeded'' \<or> ev_type ev = ''payment_intent.payment_failed''"
    and "fails e OrderFindByPk \<or> fails e OrderUpdate"
  shows "handleWebhook e d (Inr ev) = (Response 200 Received, d)"
proof -
  have s: "handlePaymentSuccess e d p = Inr d" for p
    using assms(2)
    by (auto simp: handlePaymentSuccess_def handlePaymentSuccess_try_def Order_findByPk_def
        Order_update_def split: option.splits sum.splits)
  have f: "handlePaymentFailure e d p = Inr d" for p
    using assms(2)
    by (auto simp: handlePaymentFailure_def handlePaymentFailure_try_def Order_findByPk_def
        Order_update_def split: option.splits sum.splits)
  from assms(1) show ?thesis
    by (auto simp: handleWebhook_def s f)
qed

text \<open>
  The same throw on the client path: \<open>confirmPayment\<close> answers 500 when the update of order 1
  throws.
\<close>

lemma confirmPayment_update_failure_reported:
  "confirmPayment (env0\<lparr>fails := (\<lambda>c. c = OrderUpdate)\<rparr>) db1 alice confirm1
     = (Response 500 (Failure ''Error confirming payment''), db1)"
  by (simp add: confirmPayment_def truthy_int_def truthy_str_def Order_findOne_def
      Order_update_def db1_def order1_def confirm1_def alice_def env0_def intent1_def)

text \<open>
  C4. A failure while the order update of a recognised, verified event is applied should be
  answered with a 5xx. Here the update of order 1 throws while a succeeded event for it is
  applied: the body of the handler fails, yet the webhook answers 200 and order 1 stays
  pending.
\<close>

theorem webhook_update_failure_not_reported:
  "handlePaymentSuccess_try (env0\<lparr>fails := (\<lambda>c. c = OrderUpdate)\<rparr>) db1 (ev_object event1)
     = Inl DatabaseError \<and>
   handleWebhook (env0\<lparr>fails := (\<lambda>c. c = OrderUpdate)\<rparr>) db1 (Inr event1)
     = (Response 200 Received, db1) \<and>
   code (fst (handleWebhook (env0\<lparr>fails := (\<lambda>c. c = OrderUpdate)\<rparr>) db1 (Inr event1))) = 200"
  by (simp add: handleWebhook_def handlePaymentSuccess_def handlePaymentSuccess_try_def
      Order_findByPk_def Order_update_def event1_def intent1_def db1_def order1_def)

section \<open>Refund\<close>

text \<open>
  C7. For a refund request with an order id and a reason whose order exists: when the order
  is not paid, or has no payment id, the answer is 400 and the store is unchanged, as it is
  after every answer other than 200; an answer of 200 means that the order was paid, and
  it is then refunded and cancelled whatever its status was; and a paid order with a
  payment id is refunded with 200 when neither the provider nor the update throws.
\<close>

theorem processRefund_guard:
  assumes "truthy_int (rf_orderId b)" and "truthy_str (rf_reason b)"
    and "Order_findByPk e d (the (rf_orderId b)) = Inr (Some ord)"
  shows "(paymentStatus ord \<noteq> Paid \<or> \<not> truthy_str (paymentId ord) \<longrightarrow>
            code (fst (processRefund e d b)) = 400 \<and> snd (processRefund e d b) = d) \<and>
         (code (fst (processRefund e d b)) \<noteq> 200 \<longrightarrow> snd (processRefund e d b) = d) \<and>
         (code (fst (processRefund e d b)) = 200 \<longrightarrow>
            paymentStatus ord = Paid \<and>
            snd (processRefund e d b) =
              rewrite_row (oid ord) (\<lambda>x. x\<lparr>paymentStatus := Refunded, status := Cancelled\<rparr>) d \<and>
            find (\<lambda>x. oid x = oid ord) (orders (snd (processRefund e d b))) =
              Some (ord\<lparr>paymentStatus := Refunded, status := Cancelled\<rparr>)) \<and>
         (paymentStatus ord = Paid \<and> truthy_str (paymentId ord) \<and>
          (\<forall>amount. refunds_create e (the (paymentId ord)) amount \<noteq> None) \<and>
          \<not> fails e OrderUpdate \<longrightarrow>
            code (fst (processRefund e d b)) = 200)"
proof -
  from assms(3) have found: "find (\<lambda>x. oid x = oid ord) (orders d) = Some ord"
    by (auto simp: Order_findByPk_def find_Some_iff split: if_splits)
  have after: "find (\<lambda>x. oid x = oid ord)
      (orders (rewrite_row (oid ord) (\<lambda>x. x\<lparr>paymentStatus := Refunded, status := Cancelled\<rparr>) d)) =
      Some (ord\<lparr>paymentStatus := Refunded, status := Cancelled\<rparr>)"
    by (rule find_rewrite_row [OF found]) simp
  show ?thesis
    using assms after
    by (auto simp: processRefund_def Let_def Order_update_def
        split: option.splits sum.splits if_splits)
qed

theorem processRefund_guard_witness:
  "processRefund env0 db1 refund1 = (Response 400 (Failure ''Order is not paid''), db1) \<and>
   processRefund env0 db2 refund1 =
     (Response 200 (RefundProcessed ''Refund processed successfully'' ''re_1'' (75 / 2) ''succeeded''),
      db3) \<and>
   map paymentStatus (orders db2) = [Paid] \<and> map paymentStatus (orders db3) = [Refunded] \<and>
   map status (orders db3) = [Cancelled]"
proof -
  have a: "truthy_int (rf_orderId refund1)" "truthy_str (rf_reason refund1)"
    by (simp_all add: refund1_def truthy_int_def truthy_str_def)
  have f1: "Order_findByPk env0 db1 (the (rf_orderId refund1)) = Inr (Some order1)"
    by (simp add: Order_findByPk_def fails_env0 refund1_def db1_def order1_def)
  have p1: "paymentStatus order1 \<noteq> Paid"
    by (simp add: order1_def)
  have r1: "processRefund env0 db1 refund1 = (Response 400 (Failure ''Order is not paid''), db1)"
    by (simp add: processRefund_def a f1 p1)
  from processRefund_guard [OF a f1] p1 r1 refund_db2 show ?thesis
    by (simp add: db2_def db3_def)
qed

section \<open>Payment confirmation\<close>

text \<open>
  C10. \<open>confirmPayment\<close> marks the caller's order paid, with the supplied intent id, and
  processing, as soon as the supplied intent has succeeded: nothing is asked of the
  intent's metadata or amount, nor of the order's current payment status.
\<close>

theorem confirmPayment_checks_only_intent_status:
  assumes "truthy_int (cp_orderId b)" and "truthy_str (cp_paymentIntentId b)"
    and "Order_findOne e d (the (cp_orderId b)) (uid u) = Inr (Some ord)"
    and "intents_retrieve e (the (cp_paymentIntentId b)) = Some paymentIntent"
    and "pi_status paymentIntent = ''succeeded''"
    and "\<not> fails e OrderUpdate"
  shows "confirmPayment e d u b =
           (Response 200 (PaymentConfirmed ''Payment confirmed successfully''
              (ord\<lparr>paymentStatus := Paid, paymentId := cp_paymentIntentId b,
                   status := Processing\<rparr>)),
            rewrite_row (oid ord)
              (\<lambda>x. x\<lparr>paymentStatus := Paid, paymentId := cp_paymentIntentId b,
                      status := Processing\<rparr>) d)"
  using assms by (simp add: confirmPayment_def Order_update_def)

text \<open>Order 1 of user 1, for 37.50, is paid with the intent of order 2 of user 7, for 5.00.\<close>

theorem confirmPayment_checks_only_intent_status_witness:
  "intents_retrieve env0 ''pi_2'' = Some intent2 \<and>
   pi_metadata_orderId intent2 = Some 2 \<and> pi_metadata_userId intent2 = Some 7 \<and>
   pi_amount intent2 = 500 \<and> Math_round (totalAmount order1 * 100) = 3750 \<and>
   oid order1 = 1 \<and> userId order1 = 1 \<and>
   confirmPayment env0 db1 alice confirm2 =
     (Response 200 (PaymentConfirmed ''Payment confirmed successfully''
        (order1\<lparr>paymentStatus := Paid, paymentId := Some ''pi_2'', status := Processing\<rparr>)),
      db1\<lparr>orders := [order1\<lparr>paymentStatus := Paid, paymentId := Some ''pi_2'',
                                status := Processing\<rparr>]\<rparr>)"
proof -
  have a: "truthy_int (cp_orderId confirm2)" "truthy_str (cp_paymentIntentId confirm2)"
    "Order_findOne env0 db1 (the (cp_orderId confirm2)) (uid alice) = Inr (Some order1)"
    "intents_retrieve env0 (the (cp_paymentIntentId confirm2)) = Some intent2"
    "pi_status intent2 = ''succeeded''" "\<not> fails env0 OrderUpdate"
    by (simp_all add: confirm2_def truthy_int_def truthy_str_def Order_findOne_def fails_env0
        db1_def order1_def alice_def env0_def intent2_def)
  have m: "Math_round (totalAmount order1 * 100) = 3750"
    by (simp add: order1_def round_total)
  have r: "rewrite_row (oid order1) (\<lambda>x. x\<lparr>paymentStatus := Paid,
             paymentId := cp_paymentIntentId confirm2, status := Processing\<rparr>) db1 =
           db1\<lparr>orders := [order1\<lparr>paymentStatus := Paid, paymentId := Some ''pi_2'',
                                status := Processing\<rparr>]\<rparr>"
    by (simp add: rewrite_row_def db1_def confirm2_def)
  from confirmPayment_checks_only_intent_status [OF a] a(4) m r show ?thesis
    by (simp add: confirm2_def intent2_def order1_def)
qed

section \<open>Order numbers\<close>

text \<open>
  C9. An order that is created without an order number should be given one by the hook. The
  values that \<open>createOrder\<close> hands to \<open>Order.create\<close> carry no order number, and
  \<open>Order.create\<close> refuses them before the hook runs. The number itself, when the hook does
  run, can have a token shorter than 9: the random text \<open>0.i\<close> (0.5 in base 36) gives the
  token \<open>I\<close>.
\<close>

theorem order_number_not_generated:
  "orderNumber (order_values 1
       [\<lparr>productId = 1, quantity = 2, price = 10\<rparr>, \<lparr>productId = 2, quantity = 1, price = 5\<rparr>]
       25 (5 / 2) 10 (75 / 2) addr0 None None) = None \<and>
   Order_create env0
     (order_values 1
       [\<lparr>productId = 1, quantity = 2, price = 10\<rparr>, \<lparr>productId = 2, quantity = 1, price = 5\<rparr>]
       25 (5 / 2) 10 (75 / 2) addr0 None None) db0 = Inl ValidationError \<and>
   generateOrderNumber (env0\<lparr>random36 := ''0.i''\<rparr>) = ''ORD-1700000000000-I''"
proof -
  have "generateOrderNumber (env0\<lparr>random36 := ''0.i''\<rparr>) = ''ORD-1700000000000-I''"
    by (simp add: generateOrderNumber_def env0_def toUpperCase_def toUpperCase_char_def
        substr_def digits10.simps)
  then show ?thesis
    by (simp add: Order_create_order_values) (simp add: order_values_def)
qed

end
